theory Spec2Isabelle
  imports Complex_Main "HOL-Library.Multiset"
begin

section \<open>Data model of the PII detection service\<close>

text \<open>
  The pydantic models of \<^verbatim>\<open>main.py\<close> become records. Python's \<^verbatim>\<open>int\<close> is
  \<^typ>\<open>int\<close>; a \<^verbatim>\<open>float\<close> score is a \<^typ>\<open>real\<close> (the code only compares scores, and
  no NaN is considered); a \<^verbatim>\<open>str\<close> is a \<^typ>\<open>string\<close>, one \<^typ>\<open>char\<close> per Python
  character. The fields \<^verbatim>\<open>end\<close> and \<^verbatim>\<open>text\<close> of the source carry a prime, since both
  words are reserved in Isabelle.
\<close>

datatype py_value = NoneValue | StrValue string | FloatValue real | IntValue int

record PIIFinding =
  entity_type :: string
  start :: int
  end' :: int
  score :: real
  text' :: string
  analysis_explanation :: "(string \<times> py_value) list option"

section \<open>The consolidator\<close>

text \<open>
  The test of line 348, \<^verbatim>\<open>finding.start <= existing.end and finding.end >= existing.start\<close>.
\<close>

definition overlaps :: "PIIFinding \<Rightarrow> PIIFinding \<Rightarrow> bool" where
  "overlaps finding existing \<longleftrightarrow>
     start finding \<le> end' existing \<and> end' finding \<ge> start existing"

abbreviation (input) apart :: "PIIFinding \<Rightarrow> PIIFinding \<Rightarrow> bool" where
  "apart a b \<equiv> \<not> overlaps a b"

text \<open>
  One round of the outer loop (lines 344 to 358). The inner loop stops at the first
  overlapping entry, which is \<^const>\<open>List.find\<close>. \<^verbatim>\<open>list.remove\<close> deletes the first
  entry equal to its argument, and pydantic models are equal when their fields are, which
  is \<^const>\<open>remove1\<close>. A model object is always truthy, so \<^verbatim>\<open>if overlapping\<close> asks
  whether an entry was found.
\<close>

definition consolidate_step :: "PIIFinding list \<Rightarrow> PIIFinding \<Rightarrow> PIIFinding list" where
  "consolidate_step consolidated finding =
     (case List.find (\<lambda>existing. overlaps finding existing) consolidated of
        Some overlapping \<Rightarrow>
          if score finding > score overlapping
          then remove1 overlapping consolidated @ [finding]
          else consolidated
      | None \<Rightarrow> consolidated @ [finding])"

text \<open>
  \<^verbatim>\<open>consolidate_findings\<close> (lines 335 to 360). Python's \<^verbatim>\<open>sorted\<close> is stable, as
  \<^const>\<open>sort_key\<close> is.
\<close>

definition consolidate_findings :: "PIIFinding list \<Rightarrow> PIIFinding list" where
  "consolidate_findings findings =
     (if findings = [] then []
      else foldl consolidate_step [] (sort_key start findings))"

section \<open>The anonymizer\<close>

text \<open>
  Python slices never raise: a negative bound counts from the end, and a bound outside the
  string is clamped. \<^const>\<open>nat\<close> clamps below, \<^const>\<open>take\<close> and \<^const>\<open>drop\<close> above.
\<close>

definition slice_index :: "'a list \<Rightarrow> int \<Rightarrow> nat" where
  "slice_index s i = (if i < 0 then nat (int (length s) + i) else nat i)"

definition slice_to :: "'a list \<Rightarrow> int \<Rightarrow> 'a list" where
  "slice_to s i = take (slice_index s i) s"

definition slice_from :: "'a list \<Rightarrow> int \<Rightarrow> 'a list" where
  "slice_from s i = drop (slice_index s i) s"

definition slice :: "'a list \<Rightarrow> int \<Rightarrow> int \<Rightarrow> 'a list" where
  "slice s i j = drop (slice_index s i) (take (slice_index s j) s)"

definition replacement :: "PIIFinding \<Rightarrow> string" where
  "replacement finding = ''['' @ entity_type finding @ '']''"

definition anonymize_step :: "string \<Rightarrow> PIIFinding \<Rightarrow> string" where
  "anonymize_step anonymized_text finding =
     slice_to anonymized_text (start finding) @ replacement finding
       @ slice_from anonymized_text (end' finding)"

text \<open>
  \<^verbatim>\<open>sorted(findings, key=lambda x: x.start, reverse=True)\<close> keeps findings of equal start in
  their original order, so it is the stable ascending sort of the reversed list, reversed.
\<close>

definition sorted_reverse :: "PIIFinding list \<Rightarrow> PIIFinding list" where
  "sorted_reverse findings = rev (sort_key start (rev findings))"

text \<open>The loop of lines 220 to 223, 267 to 270 and 320 to 323.\<close>

definition anonymize :: "string \<Rightarrow> PIIFinding list \<Rightarrow> string" where
  "anonymize txt findings = foldl anonymize_step txt (sorted_reverse findings)"

section \<open>Requests, results and errors\<close>

text \<open>
  The field \<^verbatim>\<open>text\<close> of \<^verbatim>\<open>AnalysisRequest\<close> and of \<^verbatim>\<open>BenchmarkRequest\<close> is
  \<open>request_text\<close> and \<open>benchmark_text\<close> here: record fields share one name space.
\<close>

record PIIDetectionConfig =
  engine :: string
  confidence_threshold :: real
  entities :: "string list"
  language :: string

definition default_config :: PIIDetectionConfig where
  "default_config =
     \<lparr>engine = ''presidio'', confidence_threshold = 0.5, entities = [], language = ''en''\<rparr>"

record AnalysisRequest =
  request_text :: string
  config :: "PIIDetectionConfig option"

record PIIAnalysisResult =
  findings :: "PIIFinding list"
  anonymized_text :: string
  processing_engine :: string

record BenchmarkRequest =
  benchmark_text :: string

text \<open>
  What a handler raises: an \<^verbatim>\<open>HTTPException\<close> with its status code and detail, or the
  \<^verbatim>\<open>AttributeError\<close> of a failed attribute lookup.
\<close>

datatype exn = HTTPException int string | AttributeError string

text \<open>\<^verbatim>\<open>request.config or PIIDetectionConfig()\<close>: a model object is truthy.\<close>

definition request_config :: "AnalysisRequest \<Rightarrow> PIIDetectionConfig" where
  "request_config request = (case config request of None \<Rightarrow> default_config | Some c \<Rightarrow> c)"

section \<open>The detection engines and the registry\<close>

text \<open>
  The engines are libraries outside the repository, so they are parameters. A call returns
  \<open>Inr\<close> its value, or \<open>Inl\<close> the message \<^verbatim>\<open>str(e)\<close> of the exception it raised.
  \<^verbatim>\<open>nlp_models\<close> is the dictionary of line 21, with one optional field per key the handlers
  read; \<open>explain\<close> is \<^verbatim>\<open>spacy.explain\<close>. \<open>Span\<close> is a spaCy entity (its \<^verbatim>\<open>label_\<close> and
  \<^verbatim>\<open>text\<close> are \<open>label'\<close> and \<open>span_text\<close>), \<open>EntityGroup\<close> a dictionary of the
  Transformers pipeline, \<open>RecognizerResult\<close> a result of the Presidio analyzer.
\<close>

record RecognizerResult =
  result_entity_type :: string
  result_start :: int
  result_end :: int
  result_score :: real
  recognition_metadata :: "(string \<times> py_value) list"

record Span =
  label' :: string
  start_char :: int
  end_char :: int
  span_text :: string

record EntityGroup =
  entity_group :: string
  group_start :: int
  group_end :: int
  group_score :: real
  word :: string

record nlp_models =
  spacy :: "(string \<Rightarrow> string + Span list) option"
  presidio_analyzer ::
    "(string \<Rightarrow> string list \<Rightarrow> string \<Rightarrow> real \<Rightarrow> string + RecognizerResult list) option"
  presidio_anonymizer :: "(string \<Rightarrow> RecognizerResult list \<Rightarrow> string + string) option"
  transformers_pipeline :: "(string \<Rightarrow> string + EntityGroup list) option"
  explain :: "string \<Rightarrow> py_value"

text \<open>\<^verbatim>\<open>key in nlp_models\<close>.\<close>

definition loaded :: "'a option \<Rightarrow> bool" where
  "loaded entry = (case entry of None \<Rightarrow> False | Some _ \<Rightarrow> True)"

text \<open>\<^verbatim>\<open>d.get(key, default)\<close> on a dictionary.\<close>

definition dict_get :: "(string \<times> 'v) list \<Rightarrow> string \<Rightarrow> 'v \<Rightarrow> 'v" where
  "dict_get d key fallback = (case map_of d key of None \<Rightarrow> fallback | Some v \<Rightarrow> v)"

section \<open>Single-engine analysis\<close>

definition presidio_default_entities :: "string list" where
  "presidio_default_entities =
     [''PERSON'', ''EMAIL_ADDRESS'', ''PHONE_NUMBER'', ''CREDIT_CARD'',
      ''SSN'', ''IBAN_CODE'', ''IP_ADDRESS'', ''DATE_TIME'', ''LOCATION'',
      ''MEDICAL_LICENSE'', ''US_DRIVER_LICENSE'', ''US_PASSPORT'',
      ''CRYPTO'', ''US_BANK_NUMBER'', ''AGE'', ''ORGANIZATION'']"

text \<open>The conversion of lines 152 to 167.\<close>

definition presidio_finding :: "string \<Rightarrow> RecognizerResult \<Rightarrow> PIIFinding" where
  "presidio_finding txt result =
     \<lparr>entity_type = result_entity_type result,
      start = result_start result,
      end' = result_end result,
      score = result_score result,
      text' = slice txt (result_start result) (result_end result),
      analysis_explanation = Some
        [(''recognizer'', dict_get (recognition_metadata result) ''recognizer_name'' (StrValue [])),
         (''pattern_name'', dict_get (recognition_metadata result) ''pattern_name'' (StrValue [])),
         (''pattern'', dict_get (recognition_metadata result) ''pattern'' (StrValue [])),
         (''original_score'', FloatValue (result_score result)),
         (''score_context_improvement'',
            dict_get (recognition_metadata result) ''score_context_improvement'' (IntValue 0)),
         (''supportive_context_word'',
            dict_get (recognition_metadata result) ''supportive_context_word'' (StrValue [])),
         (''validation_result'',
            dict_get (recognition_metadata result) ''validation_result'' NoneValue)]\<rparr>"

text \<open>
  \<^verbatim>\<open>analyze_with_presidio\<close> (lines 121 to 183). The check of line 124 is outside the
  \<^verbatim>\<open>try\<close>; everything raised inside it becomes a status 500. Reading the key
  \<^verbatim>\<open>presidio_anonymizer\<close> is inside, so a missing anonymizer is a \<^verbatim>\<open>KeyError\<close> turned
  into a status 500 (\<open>CHR 0x27\<close> is the quote Python puts around the key). Presidio
  renders the redacted text itself.
\<close>

definition analyze_with_presidio :: "nlp_models \<Rightarrow> AnalysisRequest \<Rightarrow> exn + PIIAnalysisResult" where
  "analyze_with_presidio models request =
     (case presidio_analyzer models of
        None \<Rightarrow> Inl (HTTPException 503 ''Presidio not available'')
      | Some analyzer \<Rightarrow>
         (case presidio_anonymizer models of
            None \<Rightarrow>
              Inl (HTTPException 500
                (''Presidio analysis failed: '' @ [CHR 0x27] @ ''presidio_anonymizer'' @ [CHR 0x27]))
          | Some anonymizer \<Rightarrow>
             (let cfg = request_config request;
                  wanted = (if entities cfg = [] then presidio_default_entities else entities cfg)
              in case analyzer (request_text request) wanted (language cfg)
                        (confidence_threshold cfg) of
                   Inl e \<Rightarrow> Inl (HTTPException 500 (''Presidio analysis failed: '' @ e))
                 | Inr results \<Rightarrow>
                    (case anonymizer (request_text request) results of
                       Inl e \<Rightarrow> Inl (HTTPException 500 (''Presidio analysis failed: '' @ e))
                     | Inr anonymized \<Rightarrow>
                         Inr \<lparr>findings = map (presidio_finding (request_text request)) results,
                              anonymized_text = anonymized,
                              processing_engine = ''presidio''\<rparr>))))"

definition spacy_default_entities :: "string list" where
  "spacy_default_entities =
     [''PERSON'', ''ORG'', ''GPE'', ''DATE'', ''TIME'', ''MONEY'', ''CARDINAL'']"

text \<open>The body of the loop of lines 200 to 217: the finding an entity contributes, if any.\<close>

definition spacy_finding ::
  "(string \<Rightarrow> py_value) \<Rightarrow> PIIDetectionConfig \<Rightarrow> Span \<Rightarrow> PIIFinding option" where
  "spacy_finding describe cfg ent =
     (if label' ent \<in> set (if entities cfg = [] then spacy_default_entities else entities cfg)
      then (let confidence = (if label' ent \<in> set [''PERSON'', ''ORG''] then 0.8 else 0.7)
            in if confidence \<ge> confidence_threshold cfg
               then Some \<lparr>entity_type = label' ent,
                          start = start_char ent,
                          end' = end_char ent,
                          score = confidence,
                          text' = span_text ent,
                          analysis_explanation = Some
                            [(''recognizer'', StrValue ''spacy_ner''),
                             (''entity_label'', StrValue (label' ent)),
                             (''entity_description'', describe (label' ent))]\<rparr>
               else None)
      else None)"

definition spacy_findings ::
  "(string \<Rightarrow> py_value) \<Rightarrow> PIIDetectionConfig \<Rightarrow> Span list \<Rightarrow> PIIFinding list" where
  "spacy_findings describe cfg ents = List.map_filter (spacy_finding describe cfg) ents"

text \<open>\<^verbatim>\<open>analyze_with_spacy\<close> (lines 185 to 233).\<close>

definition analyze_with_spacy :: "nlp_models \<Rightarrow> AnalysisRequest \<Rightarrow> exn + PIIAnalysisResult" where
  "analyze_with_spacy models request =
     (case spacy models of
        None \<Rightarrow> Inl (HTTPException 503 ''spaCy not available'')
      | Some nlp \<Rightarrow>
         (case nlp (request_text request) of
            Inl e \<Rightarrow> Inl (HTTPException 500 (''spaCy analysis failed: '' @ e))
          | Inr ents \<Rightarrow>
             (let detected = spacy_findings (explain models) (request_config request) ents
              in Inr \<lparr>findings = detected,
                      anonymized_text = anonymize (request_text request) detected,
                      processing_engine = ''spacy''\<rparr>)))"

text \<open>The body of the loop of lines 250 to 264.\<close>

definition transformers_finding :: "PIIDetectionConfig \<Rightarrow> EntityGroup \<Rightarrow> PIIFinding option" where
  "transformers_finding cfg result =
     (if group_score result \<ge> confidence_threshold cfg
      then Some \<lparr>entity_type = entity_group result,
                 start = group_start result,
                 end' = group_end result,
                 score = group_score result,
                 text' = word result,
                 analysis_explanation = Some
                   [(''recognizer'', StrValue ''transformers_bert''),
                    (''model'', StrValue ''dbmdz/bert-large-cased-finetuned-conll03-english''),
                    (''entity_group'', StrValue (entity_group result)),
                    (''original_score'', FloatValue (group_score result))]\<rparr>
      else None)"

definition transformers_findings :: "PIIDetectionConfig \<Rightarrow> EntityGroup list \<Rightarrow> PIIFinding list" where
  "transformers_findings cfg results = List.map_filter (transformers_finding cfg) results"

text \<open>\<^verbatim>\<open>analyze_with_transformers\<close> (lines 235 to 280).\<close>

definition analyze_with_transformers ::
  "nlp_models \<Rightarrow> AnalysisRequest \<Rightarrow> exn + PIIAnalysisResult" where
  "analyze_with_transformers models request =
     (case transformers_pipeline models of
        None \<Rightarrow> Inl (HTTPException 503 ''Transformers not available'')
      | Some pipeline \<Rightarrow>
         (case pipeline (request_text request) of
            Inl e \<Rightarrow> Inl (HTTPException 500 (''Transformers analysis failed: '' @ e))
          | Inr results \<Rightarrow>
             (let detected = transformers_findings (request_config request) results
              in Inr \<lparr>findings = detected,
                      anonymized_text = anonymize (request_text request) detected,
                      processing_engine = ''transformers''\<rparr>)))"

section \<open>Hybrid analysis\<close>

text \<open>
  One of the three blocks of lines 289 to 314, which differ in the engine only. The state
  is the pair of \<^verbatim>\<open>all_findings\<close> and \<^verbatim>\<open>engines_used\<close>. An engine that is not loaded is
  not called; an engine that raises leaves the state as it was (the exception is logged).
\<close>

definition hybrid_engine ::
  "bool \<Rightarrow> exn + PIIAnalysisResult \<Rightarrow> string \<Rightarrow> PIIFinding list \<times> string list
     \<Rightarrow> PIIFinding list \<times> string list" where
  "hybrid_engine available outcome name state =
     (if available
      then (case outcome of
              Inr result \<Rightarrow> (fst state @ findings result, snd state @ [name])
            | Inl e \<Rightarrow> state)
      else state)"

text \<open>
  \<^verbatim>\<open>analyze_hybrid\<close> (lines 282 to 333). Neither the consolidator nor the anonymizer
  raises, so the outer handler of lines 331 to 333 is never entered and the result is
  always \<open>Inr\<close>. \<^verbatim>\<open>engines_used\<close> is collected and never read.
\<close>

definition analyze_hybrid :: "nlp_models \<Rightarrow> AnalysisRequest \<Rightarrow> exn + PIIAnalysisResult" where
  "analyze_hybrid models request =
     (let state0 = ([], []);
          state1 = hybrid_engine (loaded (presidio_analyzer models))
                     (analyze_with_presidio models request) ''presidio'' state0;
          state2 = hybrid_engine (loaded (spacy models))
                     (analyze_with_spacy models request) ''spacy'' state1;
          state3 = hybrid_engine (loaded (transformers_pipeline models))
                     (analyze_with_transformers models request) ''transformers'' state2;
          all_findings = fst state3;
          consolidated_findings = consolidate_findings all_findings
      in Inr \<lparr>findings = consolidated_findings,
              anonymized_text = anonymize (request_text request) consolidated_findings,
              processing_engine = ''hybrid''\<rparr>)"

text \<open>
  The spec's words for the input of the Consolidator in hybrid mode: the finding lists of
  the engines whose call survived, concatenated.
\<close>

definition surviving_findings :: "nlp_models \<Rightarrow> AnalysisRequest \<Rightarrow> PIIFinding list" where
  "surviving_findings models request =
     concat (map (\<lambda>outcome. case outcome of Inr result \<Rightarrow> findings result | Inl e \<Rightarrow> [])
       [analyze_with_presidio models request,
        analyze_with_spacy models request,
        analyze_with_transformers models request])"

text \<open>
  The fields of a finding that a detection determines: entity type, start, end, score and
  text, without the explanation.
\<close>

definition finding_fields :: "PIIFinding \<Rightarrow> string \<times> int \<times> int \<times> real \<times> string" where
  "finding_fields finding =
     (entity_type finding, start finding, end' finding, score finding, text' finding)"

section \<open>The benchmark\<close>

text \<open>
  \<^verbatim>\<open>time.time()\<close> is a parameter: \<open>clock n\<close> is what the \<open>n\<close>-th call returns. The
  state of \<^verbatim>\<open>benchmark_engines\<close> is the dictionary \<^verbatim>\<open>results\<close>, the timing entries of
  \<^verbatim>\<open>performance\<close>, and the number of clock readings so far.
\<close>

datatype performance_value = Seconds real | Counts "(string \<times> nat) list"

record BenchmarkState =
  results :: "(string \<times> PIIAnalysisResult) list"
  performance :: "(string \<times> performance_value) list"
  clock_reads :: nat

text \<open>
  One of the three blocks of lines 369 to 396. The clock is read before the call, and
  once more only when the call succeeds; a failure records \<open>-1\<close>.
\<close>

definition benchmark_engine ::
  "(nat \<Rightarrow> real) \<Rightarrow> bool \<Rightarrow> exn + PIIAnalysisResult \<Rightarrow> string \<Rightarrow> BenchmarkState
     \<Rightarrow> BenchmarkState" where
  "benchmark_engine clock available outcome name state =
     (if available
      then (let start_time = clock (clock_reads state)
            in case outcome of
                 Inr result \<Rightarrow>
                   \<lparr>results = results state @ [(name, result)],
                    performance = performance state
                      @ [(name @ ''_time'', Seconds (clock (clock_reads state + 1) - start_time))],
                    clock_reads = clock_reads state + 2\<rparr>
               | Inl e \<Rightarrow>
                   \<lparr>results = results state,
                    performance = performance state @ [(name @ ''_time'', Seconds (- 1))],
                    clock_reads = clock_reads state + 1\<rparr>)
      else state)"

text \<open>
  \<^verbatim>\<open>len(results.get(name, {}).get('findings', []))\<close> of lines 400 to 402. For an engine
  without a result the default \<^verbatim>\<open>{}\<close> is a dictionary, whose \<^verbatim>\<open>get\<close> returns the empty
  list. For an engine with a result, \<^verbatim>\<open>results.get\<close> returns the \<^verbatim>\<open>PIIAnalysisResult\<close>
  object, a pydantic model, which has no attribute \<^verbatim>\<open>get\<close>: the lookup raises, with the
  message \<open>no_attribute_get\<close> (\<open>CHR 0x27\<close> is the quote in it).
\<close>

definition no_attribute_get :: string where
  "no_attribute_get =
     [CHR 0x27] @ ''PIIAnalysisResult'' @ [CHR 0x27] @ '' object has no attribute ''
       @ [CHR 0x27] @ ''get'' @ [CHR 0x27]"

definition findings_count :: "(string \<times> PIIAnalysisResult) list \<Rightarrow> string \<Rightarrow> exn + nat" where
  "findings_count res name =
     (case map_of res name of
        None \<Rightarrow> Inr (length ([] :: PIIFinding list))
      | Some result \<Rightarrow>
          Inl (AttributeError no_attribute_get))"

text \<open>The dictionary display of lines 399 to 403, its values evaluated in order.\<close>

definition accuracy_comparison :: "(string \<times> PIIAnalysisResult) list \<Rightarrow> exn + (string \<times> nat) list" where
  "accuracy_comparison res =
     (case findings_count res ''presidio'' of
        Inl e \<Rightarrow> Inl e
      | Inr p \<Rightarrow>
         (case findings_count res ''spacy'' of
            Inl e \<Rightarrow> Inl e
          | Inr s \<Rightarrow>
             (case findings_count res ''transformers'' of
                Inl e \<Rightarrow> Inl e
              | Inr t \<Rightarrow>
                  Inr [(''presidio_findings'', p), (''spacy_findings'', s),
                       (''transformers_findings'', t)])))"

record BenchmarkResponse =
  engine_results :: "(string \<times> PIIAnalysisResult) list"
  response_performance :: "(string \<times> performance_value) list"

text \<open>
  \<^verbatim>\<open>benchmark_engines\<close> (lines 362 to 408). Each engine is called on
  \<^verbatim>\<open>AnalysisRequest(text=request.text)\<close>, whose \<^verbatim>\<open>config\<close> is \<^verbatim>\<open>None\<close>.
\<close>

definition benchmark_engines ::
  "nlp_models \<Rightarrow> (nat \<Rightarrow> real) \<Rightarrow> BenchmarkRequest \<Rightarrow> exn + BenchmarkResponse" where
  "benchmark_engines models clock request =
     (let analysis_request = \<lparr>request_text = benchmark_text request, config = None\<rparr>;
          state0 = \<lparr>results = [], performance = [], clock_reads = 0\<rparr>;
          state1 = benchmark_engine clock (loaded (presidio_analyzer models))
                     (analyze_with_presidio models analysis_request) ''presidio'' state0;
          state2 = benchmark_engine clock (loaded (spacy models))
                     (analyze_with_spacy models analysis_request) ''spacy'' state1;
          state3 = benchmark_engine clock (loaded (transformers_pipeline models))
                     (analyze_with_transformers models analysis_request) ''transformers'' state2
      in case accuracy_comparison (results state3) of
           Inl e \<Rightarrow> Inl e
         | Inr counts \<Rightarrow>
             Inr \<lparr>engine_results = results state3,
                  response_performance =
                    performance state3 @ [(''accuracy_comparison'', Counts counts)]\<rparr>)"

section \<open>Example inputs\<close>

text \<open>\<^verbatim>\<open>PIIFinding(...)\<close> without an explanation, which defaults to \<^verbatim>\<open>None\<close>.\<close>

definition new_PIIFinding :: "string \<Rightarrow> int \<Rightarrow> int \<Rightarrow> real \<Rightarrow> string \<Rightarrow> PIIFinding" where
  "new_PIIFinding ty s e sc t =
     \<lparr>entity_type = ty, start = s, end' = e, score = sc, text' = t,
      analysis_explanation = None\<rparr>"

text \<open>Three findings overlapping in a chain: the first and the last do not overlap.\<close>

definition chain_findings :: "PIIFinding list" where
  "chain_findings =
     [new_PIIFinding ''PERSON'' 0 5 0.9 ''Alice'',
      new_PIIFinding ''ORG'' 4 10 0.5 ''e Corp'',
      new_PIIFinding ''GPE'' 9 15 0.7 ''p Paris'']"

text \<open>The scenario of the spec: two overlapping findings over a short text.\<close>

definition john_doe_findings :: "PIIFinding list" where
  "john_doe_findings =
     [new_PIIFinding ''PERSON'' 0 4 0.9 ''John'', new_PIIFinding ''ORG'' 2 6 0.6 ''hn D'']"

definition paris_findings :: "PIIFinding list" where
  "paris_findings =
     [new_PIIFinding ''PERSON'' 0 4 0.8 ''John'', new_PIIFinding ''GPE'' 14 19 0.7 ''Paris'']"

definition separate_findings :: "PIIFinding list" where
  "separate_findings =
     [new_PIIFinding ''PERSON'' 0 4 0.8 ''John'', new_PIIFinding ''GPE'' 8 13 0.7 ''Paris'']"

text \<open>A registry with no engine, and registries whose engines return fixed results.\<close>

definition no_models :: nlp_models where
  "no_models =
     \<lparr>spacy = None, presidio_analyzer = None, presidio_anonymizer = None,
      transformers_pipeline = None, explain = (\<lambda>label. NoneValue)\<rparr>"

definition touching_groups :: "EntityGroup list" where
  "touching_groups =
     [\<lparr>entity_group = ''PER'', group_start = 0, group_end = 4, group_score = 0.9,
       word = ''John''\<rparr>,
      \<lparr>entity_group = ''ORG'', group_start = 4, group_end = 8, group_score = 0.8,
       word = ''Corp''\<rparr>]"

definition john_span :: Span where
  "john_span = \<lparr>label' = ''PERSON'', start_char = 0, end_char = 4, span_text = ''John''\<rparr>"

definition transformers_models :: nlp_models where
  "transformers_models =
     no_models\<lparr>transformers_pipeline := Some (\<lambda>txt. Inr touching_groups)\<rparr>"

definition spacy_models :: nlp_models where
  "spacy_models = no_models\<lparr>spacy := Some (\<lambda>txt. Inr [])\<rparr>"

definition both_models :: nlp_models where
  "both_models =
     no_models\<lparr>spacy := Some (\<lambda>txt. Inr [john_span]),
               transformers_pipeline := Some (\<lambda>txt. Inr touching_groups)\<rparr>"

definition john_request :: AnalysisRequest where
  "john_request = \<lparr>request_text = ''JohnCorp is here'', config = None\<rparr>"

definition configured_request :: AnalysisRequest where
  "configured_request =
     \<lparr>request_text = ''John Doe is here'',
      config = Some (default_config\<lparr>engine := ''hybrid''\<rparr>)\<rparr>"

text \<open>A request that asks for locations only.\<close>

definition entities_request :: AnalysisRequest where
  "entities_request =
     \<lparr>request_text = ''JohnCorp is here'',
      config = Some (default_config\<lparr>entities := [''LOC'']\<rparr>)\<rparr>"

section \<open>Properties of the consolidator\<close>

subsection \<open>What one round does\<close>

lemma overlaps_sym: "overlaps a b \<Longrightarrow> overlaps b a"
  by (auto simp: overlaps_def)

lemma consolidate_step_cases:
  "consolidate_step acc c = acc @ [c] \<or> consolidate_step acc c = acc
     \<or> (\<exists>e \<in> set acc. consolidate_step acc c = remove1 e acc @ [c])"
  by (auto simp: consolidate_step_def find_Some_iff split: option.splits)

lemma set_consolidate_step: "set (consolidate_step acc c) \<subseteq> insert c (set acc)"
  using consolidate_step_cases [of acc c] by (auto dest: notin_set_remove1)

lemma mset_consolidate_step: "mset (consolidate_step acc c) \<subseteq># mset acc + {#c#}"
  using consolidate_step_cases [of acc c] by (auto simp: subset_mset.add_increasing2)

lemma mset_foldl_consolidate_step:
  "mset (foldl consolidate_step acc cs) \<subseteq># mset acc + mset cs"
proof (induction cs arbitrary: acc)
  case Nil
  show ?case by simp
next
  case (Cons c cs)
  have "mset (foldl consolidate_step (consolidate_step acc c) cs)
          \<subseteq># mset (consolidate_step acc c) + mset cs"
    by (rule Cons.IH)
  also have "\<dots> \<subseteq># (mset acc + {#c#}) + mset cs"
    using mset_consolidate_step [of acc c] by (simp add: subset_mset.add_right_mono)
  finally show ?case by (simp add: ac_simps)
qed

subsection \<open>The accepted list stays sorted by start\<close>

text \<open>
  The candidates arrive in ascending order of start, so a candidate appended at the end of
  the accepted list, after a replacement too, starts no earlier than every accepted entry.
\<close>

lemma sorted_consolidate_step:
  assumes "sorted (map start (acc @ [c]))"
  shows "sorted (map start (consolidate_step acc c))"
proof -
  from assms have a: "sorted (map start acc)" and b: "\<forall>e \<in> set acc. start e \<le> start c"
    by (auto simp: sorted_append)
  consider "consolidate_step acc c = acc @ [c]" | "consolidate_step acc c = acc"
    | e where "consolidate_step acc c = remove1 e acc @ [c]"
    using consolidate_step_cases [of acc c] by blast
  then show ?thesis
  proof cases
    case 1 with assms show ?thesis by simp
  next
    case 2 with a show ?thesis by simp
  next
    case 3
    have "sorted (map start (remove1 e acc))" using a by (rule sorted_map_remove1)
    moreover have "\<forall>x \<in> set (remove1 e acc). start x \<le> start c"
      using b by (auto dest: notin_set_remove1)
    ultimately show ?thesis using 3 by (auto simp: sorted_append)
  qed
qed

lemma sorted_consolidate_step_append:
  assumes "sorted (map start (acc @ c # cs))"
  shows "sorted (map start (consolidate_step acc c @ cs))"
proof -
  have 1: "sorted (map start (acc @ [c]))" and 2: "sorted (map start cs)"
    and 3: "\<forall>x \<in> set (acc @ [c]). \<forall>y \<in> set cs. start x \<le> start y"
    using assms by (auto simp: sorted_append)
  have "sorted (map start (consolidate_step acc c))"
    using 1 by (rule sorted_consolidate_step)
  moreover have "\<forall>x \<in> set (consolidate_step acc c). \<forall>y \<in> set cs. start x \<le> start y"
    using 3 set_consolidate_step [of acc c] by auto
  ultimately show ?thesis using 2 by (auto simp: sorted_append)
qed

lemma sorted_foldl_consolidate_step:
  "sorted (map start (acc @ cs)) \<Longrightarrow> sorted (map start (foldl consolidate_step acc cs))"
proof (induction cs arbitrary: acc)
  case Nil
  then show ?case by simp
next
  case (Cons c cs)
  have "sorted (map start (consolidate_step acc c @ cs))"
    using Cons.prems by (rule sorted_consolidate_step_append)
  then show ?case using Cons.IH by simp
qed

subsection \<open>The accepted list stays pairwise non-overlapping\<close>

text \<open>
  A candidate that starts no earlier than two entries and overlaps both forces the two
  entries to overlap each other. So in a pairwise non-overlapping accepted list the
  candidate overlaps one entry at most, and checking the first overlapping entry only
  loses nothing.
\<close>

lemma overlaps_both:
  assumes "overlaps c e" "overlaps c x" "start e \<le> start c" "start x \<le> start c"
  shows "overlaps e x"
  using assms by (auto simp: overlaps_def)

lemma apart_remove1:
  "sorted_wrt apart acc \<Longrightarrow> e \<in> set acc \<Longrightarrow> x \<in> set (remove1 e acc) \<Longrightarrow> apart e x"
proof (induction acc)
  case Nil
  then show ?case by simp
next
  case (Cons a acc)
  show ?case
  proof (cases "e = a")
    case True
    with Cons.prems show ?thesis by auto
  next
    case False
    with Cons.prems have "x = a \<or> x \<in> set (remove1 e acc)" and "e \<in> set acc" by auto
    with Cons show ?thesis by (auto dest: overlaps_sym)
  qed
qed

lemma sorted_wrt_remove1: "sorted_wrt P xs \<Longrightarrow> sorted_wrt P (remove1 x xs)"
  by (induction xs) (auto dest: notin_set_remove1)

lemma apart_consolidate_step:
  assumes inv: "sorted_wrt apart acc" and le: "\<forall>e \<in> set acc. start e \<le> start c"
  shows "sorted_wrt apart (consolidate_step acc c)"
proof (cases "List.find (\<lambda>existing. overlaps c existing) acc")
  case None
  then have "\<forall>e \<in> set acc. apart e c"
    by (auto simp: find_None_iff dest: overlaps_sym)
  with inv None show ?thesis by (simp add: consolidate_step_def sorted_wrt_append)
next
  case (Some e)
  then have e: "e \<in> set acc" "overlaps c e" by (auto simp: find_Some_iff)
  show ?thesis
  proof (cases "score c > score e")
    case False
    with Some inv show ?thesis by (simp add: consolidate_step_def)
  next
    case True
    have "apart x c" if x: "x \<in> set (remove1 e acc)" for x
    proof
      assume "overlaps x c"
      then have "overlaps c x" by (rule overlaps_sym)
      moreover have "start x \<le> start c" "start e \<le> start c"
        using x e le by (auto dest: notin_set_remove1)
      ultimately have "overlaps e x" using e(2) by (auto intro: overlaps_both)
      moreover have "apart e x" using inv e(1) x by (rule apart_remove1)
      ultimately show False by simp
    qed
    moreover have "sorted_wrt apart (remove1 e acc)" using inv by (rule sorted_wrt_remove1)
    ultimately show ?thesis using Some True
      by (simp add: consolidate_step_def sorted_wrt_append)
  qed
qed

lemma apart_foldl_consolidate_step:
  "sorted_wrt apart acc \<Longrightarrow> sorted (map start (acc @ cs))
     \<Longrightarrow> sorted_wrt apart (foldl consolidate_step acc cs)"
proof (induction cs arbitrary: acc)
  case Nil
  then show ?case by simp
next
  case (Cons c cs)
  have "\<forall>e \<in> set acc. start e \<le> start c"
    using Cons.prems(2) by (auto simp: sorted_append)
  then have a: "sorted_wrt apart (consolidate_step acc c)"
    using Cons.prems(1) by (intro apart_consolidate_step)
  have "sorted (map start (consolidate_step acc c @ cs))"
    using Cons.prems(2) by (rule sorted_consolidate_step_append)
  with a show ?case using Cons.IH by simp
qed

lemma foldl_consolidate_step_id:
  "sorted_wrt apart (acc @ cs) \<Longrightarrow> foldl consolidate_step acc cs = acc @ cs"
proof (induction cs arbitrary: acc)
  case Nil
  show ?case by simp
next
  case (Cons c cs)
  have "\<forall>e \<in> set acc. apart c e"
    using Cons.prems by (auto simp: sorted_wrt_append dest: overlaps_sym)
  then have "List.find (\<lambda>existing. overlaps c existing) acc = None"
    by (simp add: find_None_iff)
  then have "consolidate_step acc c = acc @ [c]"
    by (simp add: consolidate_step_def)
  then show ?case using Cons.IH [of "acc @ [c]"] Cons.prems by simp
qed

lemma consolidate_chain_findings:
  "consolidate_findings chain_findings =
     [new_PIIFinding ''PERSON'' 0 5 0.9 ''Alice'', new_PIIFinding ''GPE'' 9 15 0.7 ''p Paris'']"
  by (simp add: consolidate_findings_def consolidate_step_def overlaps_def chain_findings_def
      new_PIIFinding_def)

subsection \<open>The claims about the consolidator\<close>

text \<open>
  C2: for every input list, the output of consolidation is pairwise non-overlapping under
  the closed-interval test: no two findings at different places of the returned list
  satisfy \<open>a.start \<le> b.end\<close> and \<open>a.end \<ge> b.start\<close>. Nothing is assumed of the
  input, so this covers three or more findings overlapping in a chain.
\<close>

theorem consolidate_findings_non_overlapping:
  assumes "i < j" and "j < length (consolidate_findings fs)"
  shows "\<not> overlaps (consolidate_findings fs ! i) (consolidate_findings fs ! j)
       \<and> \<not> overlaps (consolidate_findings fs ! j) (consolidate_findings fs ! i)"
proof -
  have "sorted_wrt apart (consolidate_findings fs)"
    using apart_foldl_consolidate_step [of "[]" "sort_key start fs"]
    by (simp add: consolidate_findings_def)
  then have "\<not> overlaps (consolidate_findings fs ! i) (consolidate_findings fs ! j)"
    using assms by (simp add: sorted_wrt_iff_nth_less)
  then show ?thesis by (auto dest: overlaps_sym)
qed

text \<open>
  The theorem at the chain: the first and the third finding survive, at places 0 and 1.
\<close>

theorem consolidate_findings_non_overlapping_witness:
  "(0::nat) < 1 \<and> 1 < length (consolidate_findings chain_findings)
     \<and> \<not> overlaps (consolidate_findings chain_findings ! 0)
           (consolidate_findings chain_findings ! 1)
     \<and> \<not> overlaps (consolidate_findings chain_findings ! 1)
           (consolidate_findings chain_findings ! 0)"
proof -
  have l: "(1::nat) < length (consolidate_findings chain_findings)"
    by (simp add: consolidate_chain_findings)
  show ?thesis
    using l consolidate_findings_non_overlapping [of 0 1 chain_findings] by simp
qed

text \<open>
  C6: for two findings that overlap under the closed-interval test (spans that touch at a
  boundary included) and have distinct scores, the consolidated output is exactly the one
  finding with the higher score.
\<close>

theorem consolidate_findings_pair:
  assumes "overlaps a b" and "score a \<noteq> score b"
  shows "consolidate_findings [a, b] = [if score a > score b then a else b]"
  using assms
  by (auto simp: consolidate_findings_def consolidate_step_def overlaps_def)

text \<open>The theorem at the spans 0 to 4 and 4 to 8, which touch at 4.\<close>

theorem consolidate_findings_pair_witness:
  "overlaps (new_PIIFinding ''A'' 0 4 0.6 ''abcd'') (new_PIIFinding ''B'' 4 8 0.8 ''efgh'')
     \<and> score (new_PIIFinding ''A'' 0 4 0.6 ''abcd'')
         \<noteq> score (new_PIIFinding ''B'' 4 8 0.8 ''efgh'')
     \<and> consolidate_findings
           [new_PIIFinding ''A'' 0 4 0.6 ''abcd'', new_PIIFinding ''B'' 4 8 0.8 ''efgh'']
         = [new_PIIFinding ''B'' 4 8 0.8 ''efgh'']"
proof -
  have o: "overlaps (new_PIIFinding ''A'' 0 4 0.6 ''abcd'')
             (new_PIIFinding ''B'' 4 8 0.8 ''efgh'')"
    by (simp add: overlaps_def new_PIIFinding_def)
  have s: "score (new_PIIFinding ''A'' 0 4 0.6 ''abcd'')
             \<noteq> score (new_PIIFinding ''B'' 4 8 0.8 ''efgh'')"
    by (simp add: new_PIIFinding_def)
  have "\<not> score (new_PIIFinding ''A'' 0 4 0.6 ''abcd'')
           > score (new_PIIFinding ''B'' 4 8 0.8 ''efgh'')"
    by (simp add: new_PIIFinding_def)
  then show ?thesis
    using o s consolidate_findings_pair [OF o s] by simp
qed

text \<open>
  C7: for every input list, the sequence returned by consolidation is sorted ascending by
  start, although a winning candidate is appended at the end of the accepted list and the
  list is not sorted again.
\<close>

theorem consolidate_findings_sorted:
  "sorted (map start (consolidate_findings fs))"
  using sorted_foldl_consolidate_step [of "[]" "sort_key start fs"]
  by (simp add: consolidate_findings_def)

text \<open>
  C8: consolidation is idempotent on consolidated input. A list that is sorted ascending
  by start and pairwise non-overlapping under the closed-interval test is returned
  unchanged, element for element and in the same order.
\<close>

theorem consolidate_findings_idempotent:
  assumes "sorted (map start fs)"
    and "\<forall>i j. i < j \<and> j < length fs \<longrightarrow> \<not> overlaps (fs ! i) (fs ! j)"
  shows "consolidate_findings fs = fs"
proof -
  have "sorted_wrt apart fs"
    using assms(2) by (simp add: sorted_wrt_iff_nth_less)
  then have "foldl consolidate_step [] fs = fs"
    using foldl_consolidate_step_id [of "[]" fs] by simp
  then show ?thesis
    using assms(1) by (simp add: consolidate_findings_def sort_key_id_if_sorted)
qed

theorem consolidate_findings_idempotent_witness:
  "sorted (map start separate_findings)
     \<and> \<not> overlaps (separate_findings ! 0) (separate_findings ! 1)
     \<and> consolidate_findings separate_findings = separate_findings"
proof -
  have s: "sorted (map start separate_findings)"
    by (simp add: separate_findings_def new_PIIFinding_def)
  have "i < j \<and> j < length separate_findings
          \<longrightarrow> \<not> overlaps (separate_findings ! i) (separate_findings ! j)" for i j
    by (auto simp: separate_findings_def new_PIIFinding_def overlaps_def less_Suc_eq
        numeral_2_eq_2)
  then have n: "\<forall>i j. i < j \<and> j < length separate_findings
          \<longrightarrow> \<not> overlaps (separate_findings ! i) (separate_findings ! j)" by blast
  have "\<not> overlaps (separate_findings ! 0) (separate_findings ! 1)"
    by (simp add: separate_findings_def new_PIIFinding_def overlaps_def)
  then show ?thesis using s consolidate_findings_idempotent [OF s n] by simp
qed

text \<open>
  C10: consolidation never invents or mutates findings. The returned list is a
  sub-multiset of the input list, so every returned finding is an input finding with all
  its fields, and the output is no longer than the input.
\<close>

theorem consolidate_findings_sub_multiset:
  "mset (consolidate_findings fs) \<subseteq># mset fs
     \<and> set (consolidate_findings fs) \<subseteq> set fs
     \<and> length (consolidate_findings fs) \<le> length fs"
proof -
  have m: "mset (consolidate_findings fs) \<subseteq># mset fs"
    using mset_foldl_consolidate_step [of "[]" "sort_key start fs"]
    by (simp add: consolidate_findings_def)
  have "set_mset (mset (consolidate_findings fs)) \<subseteq> set_mset (mset fs)"
    using m by (rule set_mset_mono)
  moreover have "size (mset (consolidate_findings fs)) \<le> size (mset fs)"
    using m by (rule size_mset_mono)
  ultimately show ?thesis using m by simp
qed

section \<open>Properties of the anonymizer\<close>

lemma length_anonymize_step:
  assumes "0 \<le> start f" "start f \<le> end' f" "end' f \<le> int (length w)"
  shows "int (length (anonymize_step w f))
           = int (length w) - (end' f - start f) + int (length (replacement f))"
proof -
  have "nat (start f) \<le> length w" "nat (end' f) \<le> length w" using assms by linarith+
  then show ?thesis
    using assms
    by (simp add: anonymize_step_def slice_to_def slice_from_def slice_index_def min_absorb2)
qed

text \<open>
  The loop over findings in descending order: each finding ends no later than \<open>m\<close>, the
  start of the finding replaced before it, and the working copy is still at least \<open>m\<close>
  long, so the offsets of the finding are inside the working copy.
\<close>

lemma length_foldl_anonymize_step:
  assumes "sorted_wrt (\<lambda>f g. end' g \<le> start f) ds"
    and "\<forall>f \<in> set ds. 0 \<le> start f \<and> start f < end' f \<and> end' f \<le> m"
    and "m \<le> int (length w)"
  shows "int (length (foldl anonymize_step w ds))
           = int (length w) - (\<Sum>f\<leftarrow>ds. end' f - start f)
               + (\<Sum>f\<leftarrow>ds. int (length (replacement f)))"
  using assms
proof (induction ds arbitrary: w m)
  case Nil
  show ?case by simp
next
  case (Cons f ds)
  have f: "0 \<le> start f" "start f < end' f" "end' f \<le> int (length w)"
    using Cons.prems(2,3) by auto
  have len: "int (length (anonymize_step w f))
           = int (length w) - (end' f - start f) + int (length (replacement f))"
    using f by (intro length_anonymize_step) auto
  have 1: "sorted_wrt (\<lambda>f g. end' g \<le> start f) ds" using Cons.prems(1) by simp
  have 2: "\<forall>g \<in> set ds. 0 \<le> start g \<and> start g < end' g \<and> end' g \<le> start f"
    using Cons.prems(1,2) by auto
  have 3: "start f \<le> int (length (anonymize_step w f))"
    using len f by simp
  have "int (length (foldl anonymize_step (anonymize_step w f) ds))
           = int (length (anonymize_step w f)) - (\<Sum>f\<leftarrow>ds. end' f - start f)
               + (\<Sum>f\<leftarrow>ds. int (length (replacement f)))"
    using 1 2 3 by (rule Cons.IH)
  then show ?case using len by simp
qed

lemma mset_sorted_reverse: "mset (sorted_reverse fs) = mset fs"
  by (simp add: sorted_reverse_def)

lemma sum_list_sorted_reverse:
  fixes h :: "PIIFinding \<Rightarrow> int"
  shows "(\<Sum>f\<leftarrow>sorted_reverse fs. h f) = (\<Sum>f\<leftarrow>fs. h f)"
proof -
  have "mset (map h (sorted_reverse fs)) = mset (map h fs)"
    by (simp add: mset_sorted_reverse)
  then have "sum_mset (mset (map h (sorted_reverse fs))) = sum_mset (mset (map h fs))"
    by simp
  then show ?thesis by (simp only: sum_mset_sum_list)
qed

lemma descending_sorted_reverse:
  "sorted_wrt (\<lambda>f g. start g \<le> start f) (sorted_reverse fs)"
proof -
  have "sorted (map start (sort_key start (rev fs)))" by (rule sorted_sort_key)
  then have "sorted_wrt (\<lambda>f g. start f \<le> start g) (sort_key start (rev fs))"
    by (simp add: sorted_map)
  then show ?thesis by (simp add: sorted_reverse_def sorted_wrt_rev)
qed

lemma anonymize_paris:
  "anonymize ''John lives in Paris'' paris_findings = ''[PERSON] lives in [GPE]''"
  by (simp add: anonymize_def sorted_reverse_def anonymize_step_def slice_to_def
      slice_from_def slice_index_def replacement_def paris_findings_def new_PIIFinding_def)

lemma consolidate_john_doe:
  "consolidate_findings
     [\<lparr>entity_type = ''PERSON'', start = 0, end' = 4, score = 0.9, text' = t1,
        analysis_explanation = x1\<rparr>,
      \<lparr>entity_type = ''ORG'', start = 2, end' = 6, score = 0.6, text' = t2,
        analysis_explanation = x2\<rparr>]
     = [\<lparr>entity_type = ''PERSON'', start = 0, end' = 4, score = 0.9, text' = t1,
        analysis_explanation = x1\<rparr>]"
  by (simp add: consolidate_findings_def consolidate_step_def overlaps_def)

lemma anonymize_john_doe:
  "anonymize ''John Doe is here''
     [\<lparr>entity_type = ''PERSON'', start = 0, end' = 4, score = 0.9, text' = t1,
        analysis_explanation = x1\<rparr>]
     = ''[PERSON] Doe is here''"
  by (simp add: anonymize_def sorted_reverse_def anonymize_step_def slice_to_def
      slice_from_def slice_index_def replacement_def)

subsection \<open>The claims about the anonymizer\<close>

text \<open>
  C5, as the code has it: the findings PERSON 0 to 4 with score 0.9 and ORG 2 to 6 with
  score 0.6, whatever their text and explanation, consolidate to the PERSON finding alone,
  and anonymizing ``John Doe is here'' with the consolidated set replaces the four
  characters of the span, ``John'', and yields ``[PERSON] Doe is here''.
\<close>

theorem john_doe_scenario:
  "consolidate_findings
     [\<lparr>entity_type = ''PERSON'', start = 0, end' = 4, score = 0.9, text' = t1,
        analysis_explanation = x1\<rparr>,
      \<lparr>entity_type = ''ORG'', start = 2, end' = 6, score = 0.6, text' = t2,
        analysis_explanation = x2\<rparr>]
     = [\<lparr>entity_type = ''PERSON'', start = 0, end' = 4, score = 0.9, text' = t1,
         analysis_explanation = x1\<rparr>]
   \<and> anonymize ''John Doe is here''
       (consolidate_findings
         [\<lparr>entity_type = ''PERSON'', start = 0, end' = 4, score = 0.9, text' = t1,
            analysis_explanation = x1\<rparr>,
          \<lparr>entity_type = ''ORG'', start = 2, end' = 6, score = 0.6, text' = t2,
            analysis_explanation = x2\<rparr>])
     = ''[PERSON] Doe is here''"
  by (simp only: consolidate_john_doe anonymize_john_doe)

text \<open>
  C5 as the spec states it fails: the anonymized text is not ``[PERSON] is here'', since
  the span 0 to 4 covers ``John'' only and `` Doe'' stays.
\<close>

theorem john_doe_scenario_counterexample:
  "anonymize ''John Doe is here'' (consolidate_findings john_doe_findings)
     \<noteq> ''[PERSON] is here''"
proof -
  have "anonymize ''John Doe is here'' (consolidate_findings john_doe_findings)
          = ''[PERSON] Doe is here''"
    unfolding john_doe_findings_def new_PIIFinding_def
    by (simp only: consolidate_john_doe anonymize_john_doe)
  then show ?thesis by simp
qed

text \<open>
  C9, the length law: for a text and findings with valid offsets
  (\<open>0 \<le> start < end \<le> len(text)\<close>) that are pairwise disjoint (of two findings, one ends
  no later than the other starts), the anonymized text is as long as the original, less
  the lengths of the spans, plus the lengths of the placeholders \<open>[entity_type]\<close>. An
  empty finding list gives the text back unchanged.
\<close>

theorem anonymize_length_law:
  assumes valid: "\<forall>f \<in> set fs. 0 \<le> start f \<and> start f < end' f
                      \<and> end' f \<le> int (length txt)"
    and disjoint: "\<forall>i j. i < j \<and> j < length fs \<longrightarrow>
                      end' (fs ! i) \<le> start (fs ! j) \<or> end' (fs ! j) \<le> start (fs ! i)"
  shows "int (length (anonymize txt fs))
           = int (length txt) - (\<Sum>f\<leftarrow>fs. end' f - start f)
               + (\<Sum>f\<leftarrow>fs. int (length (replacement f)))
         \<and> anonymize txt [] = txt"
proof -
  let ?ds = "sorted_reverse fs"
  have dist: "distinct fs"
  proof (rule ccontr)
    assume "\<not> distinct fs"
    then obtain i j where ij: "i < j" "j < length fs" "fs ! i = fs ! j"
      by (metis distinct_conv_nth linorder_neqE_nat)
    then have "fs ! j \<in> set fs" by simp
    with valid have "start (fs ! j) < end' (fs ! j)" by blast
    with disjoint ij show False by force
  qed
  have pair: "end' a \<le> start b \<or> end' b \<le> start a"
    if "a \<in> set fs" "b \<in> set fs" "a \<noteq> b" for a b
  proof -
    from that obtain i j where ij: "i < length fs" "j < length fs"
      "fs ! i = a" "fs ! j = b" by (auto simp: in_set_conv_nth)
    with that(3) have "i < j \<or> j < i" by (cases i j rule: linorder_cases) auto
    with disjoint ij show ?thesis by blast
  qed
  have set_ds: "set ?ds = set fs" by (simp add: sorted_reverse_def)
  have dist_ds: "distinct ?ds" using dist by (simp add: sorted_reverse_def)
  have chain: "sorted_wrt (\<lambda>f g. end' g \<le> start f) ?ds"
    unfolding sorted_wrt_iff_nth_less
  proof (intro allI impI)
    fix i j assume ij: "i < j" "j < length ?ds"
    have le: "start (?ds ! j) \<le> start (?ds ! i)"
      using descending_sorted_reverse [of fs] ij by (simp add: sorted_wrt_iff_nth_less)
    have ne: "?ds ! i \<noteq> ?ds ! j" using dist_ds ij by (simp add: nth_eq_iff_index_eq)
    have mem: "?ds ! i \<in> set fs" "?ds ! j \<in> set fs"
      using ij set_ds by (metis nth_mem order_less_trans)+
    have "start (?ds ! i) < end' (?ds ! i)" using valid mem(1) by blast
    with pair [OF mem ne] le show "end' (?ds ! j) \<le> start (?ds ! i)" by linarith
  qed
  have v: "\<forall>f \<in> set ?ds. 0 \<le> start f \<and> start f < end' f \<and> end' f \<le> int (length txt)"
    using valid set_ds by simp
  have "int (length (foldl anonymize_step txt ?ds))
           = int (length txt) - (\<Sum>f\<leftarrow>?ds. end' f - start f)
               + (\<Sum>f\<leftarrow>?ds. int (length (replacement f)))"
    using chain v by (rule length_foldl_anonymize_step) simp
  then have "int (length (anonymize txt fs))
           = int (length txt) - (\<Sum>f\<leftarrow>fs. end' f - start f)
               + (\<Sum>f\<leftarrow>fs. int (length (replacement f)))"
    by (simp add: anonymize_def sum_list_sorted_reverse)
  moreover have "anonymize txt [] = txt"
    by (simp add: anonymize_def sorted_reverse_def)
  ultimately show ?thesis by simp
qed

text \<open>
  The law at ``John lives in Paris'' with the spans 0 to 4 and 14 to 19:
  \<open>19 - (4 + 5) + (8 + 5) = 23\<close>, the length of ``[PERSON] lives in [GPE]''.
\<close>

theorem anonymize_length_law_witness:
  "int (length (anonymize ''John lives in Paris'' paris_findings))
     = int (length ''John lives in Paris'')
         - (\<Sum>f\<leftarrow>paris_findings. end' f - start f)
         + (\<Sum>f\<leftarrow>paris_findings. int (length (replacement f)))
   \<and> int (length (anonymize ''John lives in Paris'' paris_findings)) = 23
   \<and> anonymize ''John lives in Paris'' [] = ''John lives in Paris''"
proof -
  have v: "\<forall>f \<in> set paris_findings. 0 \<le> start f \<and> start f < end' f
             \<and> end' f \<le> int (length ''John lives in Paris'')"
    by (simp add: paris_findings_def new_PIIFinding_def)
  have "i < j \<and> j < length paris_findings \<longrightarrow>
          end' (paris_findings ! i) \<le> start (paris_findings ! j)
        \<or> end' (paris_findings ! j) \<le> start (paris_findings ! i)" for i j
    by (auto simp: paris_findings_def new_PIIFinding_def less_Suc_eq numeral_2_eq_2)
  then have d: "\<forall>i j. i < j \<and> j < length paris_findings \<longrightarrow>
          end' (paris_findings ! i) \<le> start (paris_findings ! j)
        \<or> end' (paris_findings ! j) \<le> start (paris_findings ! i)" by blast
  have "int (length (anonymize ''John lives in Paris'' paris_findings)) = 23"
    by (simp add: anonymize_paris)
  then show ?thesis using anonymize_length_law [OF v d] by simp
qed

section \<open>Properties of the orchestrator\<close>

subsection \<open>An engine that is not loaded contributes nothing\<close>

lemma presidio_not_loaded:
  "\<not> loaded (presidio_analyzer models) \<Longrightarrow> isl (analyze_with_presidio models request)"
  by (simp add: loaded_def analyze_with_presidio_def split: option.splits)

lemma spacy_not_loaded:
  "\<not> loaded (spacy models) \<Longrightarrow> isl (analyze_with_spacy models request)"
  by (simp add: loaded_def analyze_with_spacy_def split: option.splits)

lemma transformers_not_loaded:
  "\<not> loaded (transformers_pipeline models)
     \<Longrightarrow> isl (analyze_with_transformers models request)"
  by (simp add: loaded_def analyze_with_transformers_def split: option.splits)

lemma fst_hybrid_engine:
  assumes "\<not> available \<Longrightarrow> isl outcome"
  shows "fst (hybrid_engine available outcome name state)
           = fst state @ (case outcome of Inr result \<Rightarrow> findings result | Inl e \<Rightarrow> [])"
  using assms by (cases outcome) (auto simp: hybrid_engine_def)

lemma hybrid_all_findings:
  "fst (hybrid_engine (loaded (transformers_pipeline models))
          (analyze_with_transformers models request) ''transformers''
        (hybrid_engine (loaded (spacy models))
          (analyze_with_spacy models request) ''spacy''
        (hybrid_engine (loaded (presidio_analyzer models))
          (analyze_with_presidio models request) ''presidio'' ([], []))))
     = surviving_findings models request"
  by (simp add: fst_hybrid_engine presidio_not_loaded spacy_not_loaded
      transformers_not_loaded surviving_findings_def)

lemma analyze_hybrid_surviving:
  "analyze_hybrid models request =
     Inr \<lparr>findings = consolidate_findings (surviving_findings models request),
          anonymized_text = anonymize (request_text request)
            (consolidate_findings (surviving_findings models request)),
          processing_engine = ''hybrid''\<rparr>"
  by (simp add: analyze_hybrid_def Let_def hybrid_all_findings)

subsection \<open>Evaluating the examples\<close>

lemma transformers_findings_touching:
  "transformers_findings default_config touching_groups =
     [\<lparr>entity_type = ''PER'', start = 0, end' = 4, score = 0.9, text' = ''John'',
       analysis_explanation = Some
         [(''recognizer'', StrValue ''transformers_bert''),
          (''model'', StrValue ''dbmdz/bert-large-cased-finetuned-conll03-english''),
          (''entity_group'', StrValue ''PER''),
          (''original_score'', FloatValue 0.9)]\<rparr>,
      \<lparr>entity_type = ''ORG'', start = 4, end' = 8, score = 0.8, text' = ''Corp'',
       analysis_explanation = Some
         [(''recognizer'', StrValue ''transformers_bert''),
          (''model'', StrValue ''dbmdz/bert-large-cased-finetuned-conll03-english''),
          (''entity_group'', StrValue ''ORG''),
          (''original_score'', FloatValue 0.8)]\<rparr>]"
  by (simp add: transformers_findings_def transformers_finding_def touching_groups_def
      default_config_def List.map_filter_simps)

lemma consolidate_touching:
  "consolidate_findings (transformers_findings default_config touching_groups)
     = [hd (transformers_findings default_config touching_groups)]"
  unfolding transformers_findings_touching
  by (simp add: consolidate_findings_def consolidate_step_def overlaps_def)

lemma anonymize_touching:
  "anonymize ''JohnCorp is here'' (transformers_findings default_config touching_groups)
     = ''[PER][ORG] is here''"
  unfolding transformers_findings_touching
  by (simp add: anonymize_def sorted_reverse_def anonymize_step_def slice_to_def
      slice_from_def slice_index_def replacement_def)

lemma analyze_with_transformers_touching:
  "analyze_with_transformers transformers_models john_request =
     Inr \<lparr>findings = transformers_findings default_config touching_groups,
          anonymized_text = ''[PER][ORG] is here'',
          processing_engine = ''transformers''\<rparr>"
  by (simp add: analyze_with_transformers_def transformers_models_def no_models_def
      john_request_def request_config_def anonymize_touching)

subsection \<open>What a single-engine call returns\<close>

text \<open>
  The conversion loops keep one finding per detection that passes the handler's test, in
  the order of detection. The Transformers handler tests the score against the threshold
  only; the spaCy handler tests the label against the entity list and the confidence it
  assigns against the threshold.
\<close>

lemma transformers_findings_fields:
  "map finding_fields (transformers_findings cfg groups)
     = map (\<lambda>g. (entity_group g, group_start g, group_end g, group_score g, word g))
         (filter (\<lambda>g. confidence_threshold cfg \<le> group_score g) groups)"
  by (induction groups)
    (simp_all add: transformers_findings_def List.map_filter_simps transformers_finding_def
      finding_fields_def)

lemma spacy_findings_fields:
  "map finding_fields (spacy_findings describe cfg ents)
     = map (\<lambda>ent. (label' ent, start_char ent, end_char ent,
                    (if label' ent \<in> {''PERSON'', ''ORG''} then 0.8 else 0.7), span_text ent))
         (filter (\<lambda>ent.
              label' ent \<in> set (if entities cfg = []
                                 then [''PERSON'', ''ORG'', ''GPE'', ''DATE'', ''TIME'', ''MONEY'',
                                       ''CARDINAL'']
                                 else entities cfg)
            \<and> confidence_threshold cfg
                 \<le> (if label' ent \<in> {''PERSON'', ''ORG''} then 0.8 else 0.7)) ents)"
  by (induction ents)
    (simp_all add: spacy_findings_def List.map_filter_simps spacy_finding_def
      finding_fields_def spacy_default_entities_def Let_def)

lemma analyze_with_spacy_Inr:
  assumes "analyze_with_spacy models request = Inr result"
  shows "\<exists>nlp ents. spacy models = Some nlp \<and> nlp (request_text request) = Inr ents
           \<and> findings result = spacy_findings (explain models) (request_config request) ents
           \<and> anonymized_text result = anonymize (request_text request) (findings result)"
  using assms
  by (auto simp: analyze_with_spacy_def Let_def split: option.splits sum.splits)

lemma analyze_with_transformers_Inr:
  assumes "analyze_with_transformers models request = Inr result"
  shows "\<exists>pipeline groups. transformers_pipeline models = Some pipeline
           \<and> pipeline (request_text request) = Inr groups
           \<and> findings result = transformers_findings (request_config request) groups
           \<and> anonymized_text result = anonymize (request_text request) (findings result)"
  using assms
  by (auto simp: analyze_with_transformers_def Let_def split: option.splits sum.splits)

lemma both_spacy:
  "analyze_with_spacy both_models john_request =
     Inr \<lparr>findings = spacy_findings (\<lambda>label. NoneValue) default_config [john_span],
          anonymized_text = anonymize ''JohnCorp is here''
            (spacy_findings (\<lambda>label. NoneValue) default_config [john_span]),
          processing_engine = ''spacy''\<rparr>"
  by (simp add: analyze_with_spacy_def both_models_def no_models_def john_request_def
      request_config_def Let_def)

lemma both_transformers:
  "analyze_with_transformers both_models john_request =
     Inr \<lparr>findings = transformers_findings default_config touching_groups,
          anonymized_text = anonymize ''JohnCorp is here''
            (transformers_findings default_config touching_groups),
          processing_engine = ''transformers''\<rparr>"
  by (simp add: analyze_with_transformers_def both_models_def no_models_def john_request_def
      request_config_def Let_def)

text \<open>
  The Transformers handler never reads \<^verbatim>\<open>config.entities\<close>: asked for locations only, it
  still returns the person and the organisation.
\<close>

lemma transformers_ignores_entities:
  "map finding_fields
     (findings (projr (analyze_with_transformers transformers_models entities_request)))
     = [(''PER'', 0, 4, 0.9, ''John''), (''ORG'', 4, 8, 0.8, ''Corp'')]"
  by (simp add: analyze_with_transformers_def transformers_models_def no_models_def
      entities_request_def request_config_def Let_def transformers_findings_fields
      default_config_def touching_groups_def)


subsection \<open>The claims about hybrid and single-engine analysis\<close>

text \<open>
  C1, as the code has it: for every request, when no engine is loaded in the registry,
  hybrid analysis does not fail. It returns a successful result with no finding, the
  request's text unchanged as the anonymized text, and the engine name ``hybrid''.
\<close>

theorem analyze_hybrid_no_engine:
  assumes "presidio_analyzer models = None" and "spacy models = None"
    and "transformers_pipeline models = None"
  shows "analyze_hybrid models request =
           Inr \<lparr>findings = [], anonymized_text = request_text request,
                processing_engine = ''hybrid''\<rparr>"
  using assms
  by (simp add: analyze_hybrid_def hybrid_engine_def loaded_def consolidate_findings_def
      anonymize_def sorted_reverse_def)

theorem analyze_hybrid_no_engine_witness:
  "presidio_analyzer no_models = None \<and> spacy no_models = None
     \<and> transformers_pipeline no_models = None
     \<and> analyze_hybrid no_models john_request =
         Inr \<lparr>findings = [], anonymized_text = ''JohnCorp is here'',
              processing_engine = ''hybrid''\<rparr>"
proof -
  have 1: "presidio_analyzer no_models = None" and 2: "spacy no_models = None"
    and 3: "transformers_pipeline no_models = None"
    by (simp_all add: no_models_def)
  have "request_text john_request = ''JohnCorp is here''"
    by (simp add: john_request_def)
  then show ?thesis
    using 1 2 3 analyze_hybrid_no_engine [OF 1 2 3, of john_request] by simp
qed

text \<open>
  C1 as the spec states it fails: with the empty registry, hybrid analysis of a request
  is not an error (no \<^verbatim>\<open>NoEngineAvailable\<close>, no exception at all) but a successful result.
\<close>

theorem analyze_hybrid_no_engine_counterexample:
  "\<not> isl (analyze_hybrid no_models configured_request)
     \<and> analyze_hybrid no_models configured_request =
         Inr \<lparr>findings = [], anonymized_text = ''John Doe is here'',
              processing_engine = ''hybrid''\<rparr>"
  by (simp add: analyze_hybrid_def hybrid_engine_def loaded_def consolidate_findings_def
      anonymize_def sorted_reverse_def no_models_def configured_request_def)

text \<open>
  C3, as the code has it. In hybrid mode the findings returned are the Consolidator's
  output on the concatenated finding lists of the engines that survived, and the
  anonymized text is rendered from the consolidated findings. In single-engine mode the
  Consolidator is not called. Every successful Transformers call returns one finding per
  group of the pipeline whose score is at least the confidence threshold, in the
  pipeline's order, with the group's type, offsets, score and word; the entity list of
  the configuration is not consulted. Every successful spaCy call returns one finding per
  entity whose label is in the configured entity list (the seven default labels when the
  list is empty) and whose confidence, 0.8 for PERSON and ORG and 0.7 otherwise, is at
  least the threshold, in the document's order, with the entity's label, offsets, that
  confidence and text. In both, the anonymized text is rendered from the returned
  findings.
\<close>

theorem analysis_findings:
  "analyze_hybrid models request =
     Inr \<lparr>findings = consolidate_findings (surviving_findings models request),
          anonymized_text = anonymize (request_text request)
            (consolidate_findings (surviving_findings models request)),
          processing_engine = ''hybrid''\<rparr>
   \<and> (\<forall>result. analyze_with_spacy models request = Inr result \<longrightarrow>
        (\<exists>nlp ents. spacy models = Some nlp \<and> nlp (request_text request) = Inr ents
           \<and> map finding_fields (findings result)
               = map (\<lambda>ent. (label' ent, start_char ent, end_char ent,
                              (if label' ent \<in> {''PERSON'', ''ORG''} then 0.8 else 0.7),
                              span_text ent))
                   (filter (\<lambda>ent.
                        label' ent \<in> set (if entities (request_config request) = []
                                           then [''PERSON'', ''ORG'', ''GPE'', ''DATE'', ''TIME'',
                                                 ''MONEY'', ''CARDINAL'']
                                           else entities (request_config request))
                      \<and> confidence_threshold (request_config request)
                           \<le> (if label' ent \<in> {''PERSON'', ''ORG''} then 0.8 else 0.7)) ents)
           \<and> anonymized_text result = anonymize (request_text request) (findings result)))
   \<and> (\<forall>result. analyze_with_transformers models request = Inr result \<longrightarrow>
        (\<exists>pipeline groups. transformers_pipeline models = Some pipeline
           \<and> pipeline (request_text request) = Inr groups
           \<and> map finding_fields (findings result)
               = map (\<lambda>g. (entity_group g, group_start g, group_end g, group_score g, word g))
                   (filter (\<lambda>g. confidence_threshold (request_config request) \<le> group_score g)
                      groups)
           \<and> anonymized_text result = anonymize (request_text request) (findings result)))"
proof (intro conjI allI impI)
  show "analyze_hybrid models request =
     Inr \<lparr>findings = consolidate_findings (surviving_findings models request),
          anonymized_text = anonymize (request_text request)
            (consolidate_findings (surviving_findings models request)),
          processing_engine = ''hybrid''\<rparr>"
    by (rule analyze_hybrid_surviving)
next
  fix result assume "analyze_with_spacy models request = Inr result"
  then obtain nlp ents where "spacy models = Some nlp" "nlp (request_text request) = Inr ents"
    "findings result = spacy_findings (explain models) (request_config request) ents"
    "anonymized_text result = anonymize (request_text request) (findings result)"
    using analyze_with_spacy_Inr by blast
  then show "\<exists>nlp ents. spacy models = Some nlp \<and> nlp (request_text request) = Inr ents
           \<and> map finding_fields (findings result)
               = map (\<lambda>ent. (label' ent, start_char ent, end_char ent,
                              (if label' ent \<in> {''PERSON'', ''ORG''} then 0.8 else 0.7),
                              span_text ent))
                   (filter (\<lambda>ent.
                        label' ent \<in> set (if entities (request_config request) = []
                                           then [''PERSON'', ''ORG'', ''GPE'', ''DATE'', ''TIME'',
                                                 ''MONEY'', ''CARDINAL'']
                                           else entities (request_config request))
                      \<and> confidence_threshold (request_config request)
                           \<le> (if label' ent \<in> {''PERSON'', ''ORG''} then 0.8 else 0.7)) ents)
           \<and> anonymized_text result = anonymize (request_text request) (findings result)"
    using spacy_findings_fields [of "explain models" "request_config request" ents] by auto
next
  fix result assume "analyze_with_transformers models request = Inr result"
  then obtain pipeline groups where "transformers_pipeline models = Some pipeline"
    "pipeline (request_text request) = Inr groups"
    "findings result = transformers_findings (request_config request) groups"
    "anonymized_text result = anonymize (request_text request) (findings result)"
    using analyze_with_transformers_Inr by blast
  then show "\<exists>pipeline groups. transformers_pipeline models = Some pipeline
           \<and> pipeline (request_text request) = Inr groups
           \<and> map finding_fields (findings result)
               = map (\<lambda>g. (entity_group g, group_start g, group_end g, group_score g, word g))
                   (filter (\<lambda>g. confidence_threshold (request_config request) \<le> group_score g)
                      groups)
           \<and> anonymized_text result = anonymize (request_text request) (findings result)"
    using transformers_findings_fields [of "request_config request" groups] by auto
qed

text \<open>
  The theorem at a registry with spaCy and Transformers loaded: spaCy finds one entity,
  Transformers two groups that touch, and each handler returns all it detected.
\<close>

theorem analysis_findings_witness:
  "analyze_hybrid both_models john_request =
     Inr \<lparr>findings = consolidate_findings (surviving_findings both_models john_request),
          anonymized_text = anonymize ''JohnCorp is here''
            (consolidate_findings (surviving_findings both_models john_request)),
          processing_engine = ''hybrid''\<rparr>
   \<and> \<not> isl (analyze_with_spacy both_models john_request)
   \<and> map finding_fields (findings (projr (analyze_with_spacy both_models john_request)))
       = [(''PERSON'', 0, 4, 0.8, ''John'')]
   \<and> \<not> isl (analyze_with_transformers both_models john_request)
   \<and> map finding_fields (findings (projr (analyze_with_transformers both_models john_request)))
       = [(''PER'', 0, 4, 0.9, ''John''), (''ORG'', 4, 8, 0.8, ''Corp'')]"
proof -
  note inst = analysis_findings [of both_models john_request]
  have s: "spacy both_models = Some (\<lambda>txt. Inr [john_span])"
    and t: "transformers_pipeline both_models = Some (\<lambda>txt. Inr touching_groups)"
    by (simp_all add: both_models_def no_models_def)
  have r: "request_text john_request = ''JohnCorp is here''"
    and c: "request_config john_request = default_config"
    by (simp_all add: john_request_def request_config_def)
  have hs: "analyze_with_spacy both_models john_request
              = Inr (projr (analyze_with_spacy both_models john_request))"
    and ht: "analyze_with_transformers both_models john_request
              = Inr (projr (analyze_with_transformers both_models john_request))"
    by (simp_all add: both_spacy both_transformers)
  from inst hs obtain nlp ents where
    "spacy both_models = Some nlp" "nlp (request_text john_request) = Inr ents"
    and fs: "map finding_fields (findings (projr (analyze_with_spacy both_models john_request)))
               = map (\<lambda>ent. (label' ent, start_char ent, end_char ent,
                              (if label' ent \<in> {''PERSON'', ''ORG''} then 0.8 else 0.7),
                              span_text ent))
                   (filter (\<lambda>ent.
                        label' ent \<in> set (if entities (request_config john_request) = []
                                           then [''PERSON'', ''ORG'', ''GPE'', ''DATE'', ''TIME'',
                                                 ''MONEY'', ''CARDINAL'']
                                           else entities (request_config john_request))
                      \<and> confidence_threshold (request_config john_request)
                           \<le> (if label' ent \<in> {''PERSON'', ''ORG''} then 0.8 else 0.7)) ents)"
    by blast
  then have "ents = [john_span]" using s by auto
  with fs have 1: "map finding_fields (findings (projr (analyze_with_spacy both_models john_request)))
       = [(''PERSON'', 0, 4, 0.8, ''John'')]"
    by (simp add: c default_config_def john_span_def)
  from inst ht obtain pipeline groups where
    "transformers_pipeline both_models = Some pipeline"
    "pipeline (request_text john_request) = Inr groups"
    and ft: "map finding_fields
               (findings (projr (analyze_with_transformers both_models john_request)))
               = map (\<lambda>g. (entity_group g, group_start g, group_end g, group_score g, word g))
                   (filter (\<lambda>g. confidence_threshold (request_config john_request)
                                   \<le> group_score g) groups)"
    by blast
  then have "groups = touching_groups" using t by auto
  with ft have 2: "map finding_fields
         (findings (projr (analyze_with_transformers both_models john_request)))
       = [(''PER'', 0, 4, 0.9, ''John''), (''ORG'', 4, 8, 0.8, ''Corp'')]"
    by (simp add: c default_config_def touching_groups_def)
  have 3: "\<not> isl (analyze_with_spacy both_models john_request)"
    "\<not> isl (analyze_with_transformers both_models john_request)"
    by (simp_all add: both_spacy both_transformers)
  show ?thesis using inst 1 2 3 r by simp
qed

text \<open>
  C3 as the spec states it fails in single-engine mode: the Transformers handler returns
  both touching findings, where the Consolidator would keep the first only.
\<close>

theorem analysis_findings_counterexample:
  "analyze_with_transformers transformers_models john_request =
     Inr \<lparr>findings = transformers_findings default_config touching_groups,
          anonymized_text = ''[PER][ORG] is here'',
          processing_engine = ''transformers''\<rparr>
   \<and> consolidate_findings (transformers_findings default_config touching_groups)
       \<noteq> transformers_findings default_config touching_groups"
proof -
  have "consolidate_findings (transformers_findings default_config touching_groups)
          \<noteq> transformers_findings default_config touching_groups"
    unfolding consolidate_touching by (simp add: transformers_findings_touching)
  then show ?thesis by (simp add: analyze_with_transformers_touching)
qed

section \<open>The benchmark\<close>

lemma analyze_with_spacy_nothing:
  "analyze_with_spacy spacy_models \<lparr>request_text = txt, config = None\<rparr> =
     Inr \<lparr>findings = [], anonymized_text = txt, processing_engine = ''spacy''\<rparr>"
  by (simp add: analyze_with_spacy_def spacy_models_def no_models_def spacy_findings_def
      List.map_filter_simps anonymize_def sorted_reverse_def)

text \<open>
  With no engine loaded nothing is stored in \<^verbatim>\<open>results\<close>, every count is the length of
  the default empty list, and the benchmark returns.
\<close>

lemma benchmark_engines_no_models:
  "benchmark_engines no_models clock request =
     Inr \<lparr>engine_results = [],
          response_performance =
            [(''accuracy_comparison'',
              Counts [(''presidio_findings'', 0), (''spacy_findings'', 0),
                      (''transformers_findings'', 0)])]\<rparr>"
  by (simp add: benchmark_engines_def benchmark_engine_def loaded_def no_models_def
      accuracy_comparison_def findings_count_def)

text \<open>
  C4: the benchmark is meant never to abort. The code does abort: with spaCy loaded and
  succeeding (here it finds no entity), the count of line 401 calls \<^verbatim>\<open>get\<close> on the stored
  \<^verbatim>\<open>PIIAnalysisResult\<close>, and the handler raises \<^verbatim>\<open>AttributeError\<close> outside every
  \<^verbatim>\<open>try\<close>, whatever the clock shows.
\<close>

theorem benchmark_engines_raises:
  "benchmark_engines spacy_models clock \<lparr>benchmark_text = ''hi''\<rparr>
     = Inl (AttributeError no_attribute_get)"
proof -
  have l: "loaded (spacy spacy_models)" "\<not> loaded (presidio_analyzer spacy_models)"
    "\<not> loaded (transformers_pipeline spacy_models)"
    by (simp_all add: loaded_def spacy_models_def no_models_def)
  show ?thesis
    using l
    by (simp add: benchmark_engines_def benchmark_engine_def analyze_with_spacy_nothing
        accuracy_comparison_def findings_count_def)
qed

end
